theory Spec2Isabelle
  imports Complex_Main
begin

section \<open>JavaScript values used by the edge functions\<close>

text \<open>
  A JavaScript string is modelled as a \<open>string\<close>, a list of code units restricted to the
  Latin-1 range; \<open>length\<close> is \<^verbatim>\<open>String.prototype.length\<close>. A thrown value is either an
  \<^verbatim>\<open>Error\<close> carrying its message or some other value; every handler reads it through
  \<^verbatim>\<open>error instanceof Error ? error.message : "Unknown error"\<close>.
\<close>

type_synonym uuid = string

datatype js_throw = Error string | NonError

fun error_message_of :: "js_throw \<Rightarrow> string" where
  "error_message_of (Error m) = m"
| "error_message_of NonError = ''Unknown error''"

text \<open>\<^verbatim>\<open>!!s\<close> for a value of type \<^verbatim>\<open>string | undefined | null\<close>: falsy when absent or empty.\<close>

fun truthy :: "string option \<Rightarrow> bool" where
  "truthy None = False"
| "truthy (Some s) = (s \<noteq> [])"

text \<open>\<^verbatim>\<open>xs || []\<close> for a nullable array column.\<close>

fun or_empty :: "'a list option \<Rightarrow> 'a list" where
  "or_empty None = []"
| "or_empty (Some xs) = xs"

text \<open>
  \<^verbatim>\<open>String.prototype.slice(start, end)\<close> with non-negative integer arguments:
  both are clamped to the length, and the result is empty when \<open>end \<le> start\<close>.
\<close>

definition slice :: "'a list \<Rightarrow> nat \<Rightarrow> nat \<Rightarrow> 'a list" where
  "slice s start end' =
     (let len = length s; from = min start len; to = min end' len
      in take (to - from) (drop from s))"

text \<open>White space and line terminators of ECMAScript that lie in the Latin-1 range.\<close>

definition is_white_space :: "char \<Rightarrow> bool" where
  "is_white_space c =
     (c \<in> set [CHR 0x09, CHR 0x0A, CHR 0x0B, CHR 0x0C, CHR 0x0D, CHR 0x20, CHR 0xA0])"

definition trim :: "string \<Rightarrow> string" where
  "trim s = rev (dropWhile is_white_space (rev (dropWhile is_white_space s)))"

definition upper_case_letters :: string where
  "upper_case_letters = ''ABCDEFGHIJKLMNOPQRSTUVWXYZ'' @
     [CHR 0xC0, CHR 0xC1, CHR 0xC2, CHR 0xC3, CHR 0xC4, CHR 0xC5, CHR 0xC6, CHR 0xC7,
      CHR 0xC8, CHR 0xC9, CHR 0xCA, CHR 0xCB, CHR 0xCC, CHR 0xCD, CHR 0xCE, CHR 0xCF,
      CHR 0xD0, CHR 0xD1, CHR 0xD2, CHR 0xD3, CHR 0xD4, CHR 0xD5, CHR 0xD6,
      CHR 0xD8, CHR 0xD9, CHR 0xDA, CHR 0xDB, CHR 0xDC, CHR 0xDD, CHR 0xDE]"

definition lower_case_letters :: string where
  "lower_case_letters = ''abcdefghijklmnopqrstuvwxyz'' @
     [CHR 0xE0, CHR 0xE1, CHR 0xE2, CHR 0xE3, CHR 0xE4, CHR 0xE5, CHR 0xE6, CHR 0xE7,
      CHR 0xE8, CHR 0xE9, CHR 0xEA, CHR 0xEB, CHR 0xEC, CHR 0xED, CHR 0xEE, CHR 0xEF,
      CHR 0xF0, CHR 0xF1, CHR 0xF2, CHR 0xF3, CHR 0xF4, CHR 0xF5, CHR 0xF6,
      CHR 0xF8, CHR 0xF9, CHR 0xFA, CHR 0xFB, CHR 0xFC, CHR 0xFD, CHR 0xFE]"

definition toLowerCase :: "string \<Rightarrow> string" where
  "toLowerCase s =
     map (\<lambda>c. case map_of (zip upper_case_letters lower_case_letters) c of
                None \<Rightarrow> c | Some l \<Rightarrow> l) s"

definition endsWith :: "string \<Rightarrow> string \<Rightarrow> bool" where
  "endsWith s searchString =
     (length searchString \<le> length s \<and> drop (length s - length searchString) s = searchString)"

text \<open>\<^verbatim>\<open>s.replace(pattern, replacement)\<close> with a string pattern: the first occurrence only.\<close>

fun replace :: "string \<Rightarrow> string \<Rightarrow> string \<Rightarrow> string" where
  "replace [] pattern replacement = (if pattern = [] then replacement else [])"
| "replace (c # cs) pattern replacement =
     (if take (length pattern) (c # cs) = pattern
      then replacement @ drop (length pattern) (c # cs)
      else c # replace cs pattern replacement)"

text \<open>\<^verbatim>\<open>Array.prototype.join(separator)\<close> on an array of strings.\<close>

fun join :: "string list \<Rightarrow> string \<Rightarrow> string" where
  "join [] separator = []"
| "join [x] separator = x"
| "join (x # y # ys) separator = x @ separator @ join (y # ys) separator"

text \<open>The decimal digits of a number, as a template literal prints an HTTP status.\<close>

function string_of_nat :: "nat \<Rightarrow> string" where
  "string_of_nat n =
     (if n < 10 then [''0123456789'' ! n]
      else string_of_nat (n div 10) @ [''0123456789'' ! (n mod 10)])"
  by pat_completeness auto
termination
  by (relation "measure (\<lambda>n. n)") auto

section \<open>Tables\<close>

text \<open>
  The Postgres tables the functions read and write, each a list of rows in storage order.
  Only the columns the modelled code touches are kept; the generated \<open>id\<close> of a chunk row
  is left out. \<open>created_at\<close> is a timestamp, here a natural number.
\<close>

type_synonym vector = "real list"

record document =
  doc_id :: uuid
  doc_user_id :: uuid
  file_path :: string
  mime_type :: "string option"
  status :: "string option"
  processing_progress :: "int option"
  error_message :: "string option"
  doc_created_at :: nat

record document_chunk =
  document_id :: uuid
  content :: string
  embedding :: "vector option"
  chunk_index :: "nat option"

record agent =
  agent_id :: uuid
  agent_system_prompt :: string
  agent_rag_enabled :: bool
  agent_document_ids :: "uuid list option"

record context_row =
  context_id :: uuid
  context_document_ids :: "uuid list option"
  context_system_prompt :: "string option"

record conversation =
  conversation_id :: uuid
  conv_agent_id :: "uuid option"
  conv_rag_enabled :: bool
  conv_context_id :: "uuid option"

record message_row =
  msg_conversation_id :: uuid
  role :: string
  msg_content :: string
  msg_created_at :: nat

record database =
  documents :: "document list"
  document_chunks :: "document_chunk list"
  agents :: "agent list"
  contexts :: "context_row list"
  conversations :: "conversation list"
  messages :: "message_row list"
  logs :: "string list"

text \<open>
  PostgREST's \<^verbatim>\<open>.single()\<close>: the row when the filter selects exactly one, otherwise
  \<^verbatim>\<open>data: null\<close> with an error.
\<close>

fun single :: "'a list \<Rightarrow> 'a option" where
  "single [r] = Some r"
| "single rows = None"

text \<open>\<^verbatim>\<open>supabase.from("documents").update(values).eq("id", document_id)\<close>.\<close>

definition update_documents :: "database \<Rightarrow> uuid \<Rightarrow> (document \<Rightarrow> document) \<Rightarrow> database" where
  "update_documents db ident values =
     db\<lparr>documents := map (\<lambda>d. if doc_id d = ident then values d else d) (documents db)\<rparr>"

text \<open>\<^verbatim>\<open>supabase.from("document_chunks").insert(row)\<close>.\<close>

definition insert_chunk :: "database \<Rightarrow> document_chunk \<Rightarrow> database" where
  "insert_chunk db row = db\<lparr>document_chunks := document_chunks db @ [row]\<rparr>"

section \<open>External collaborators\<close>

text \<open>
  What lies outside the repository is a parameter of the model: the storage bucket, the
  DOCX and PDF parsers, the environment variable, the embedding and chat-completion services,
  the authentication service, pgvector's cosine distance operator \<^verbatim>\<open><=>\<close>, and the double
  precision evaluation of \<^verbatim>\<open>Math.round((processedChunks / chunks.length) * 100)\<close>.
  An embedding call is identified by its position in the run and its input; it either throws
  (the fetch rejects, or the body is not the expected JSON), answers with a non-2xx status, or
  answers with a vector.
\<close>

record blob =
  blob_text :: string
  blob_arrayBuffer :: "nat list"

datatype download_result = DownloadError string | DownloadNull | Downloaded blob

datatype pdf_text = Pages "string list" | Whole string

datatype embedding_response =
  EmbeddingThrows js_throw | EmbeddingNotOk nat | EmbeddingOk vector

datatype chat_response = ChatThrows js_throw | ChatNotOk nat | ChatOk string

record environment =
  OPENAI_API_KEY :: "string option"
  storage_download :: "string \<Rightarrow> download_result"
  mammoth_extractRawText :: "nat list \<Rightarrow> js_throw + string"
  unpdf_extractText :: "nat list \<Rightarrow> js_throw + pdf_text"
  embeddings_api :: "nat \<Rightarrow> string \<Rightarrow> embedding_response"
  chat_completions_api :: "(string \<times> string) list \<Rightarrow> chat_response"
  auth_getUser :: "string \<Rightarrow> uuid option"
  cosine_distance :: "vector \<Rightarrow> vector \<Rightarrow> real"
  round_percent :: "nat \<Rightarrow> nat \<Rightarrow> int"

datatype response_body =
  NoBody
| IngestSuccess nat
| ErrorBody string
| ChatBody string bool
| SearchResults "(string \<times> real) list"
| SearchError string

datatype response = Response nat response_body

section \<open>Similarity search: \<open>match_document_chunks\<close>\<close>

text \<open>
  \<^verbatim>\<open>
  SELECT id, document_id, content, 1 - (embedding <=> query_embedding) AS similarity
  FROM document_chunks
  WHERE document_id = ANY(filter_document_ids)
    AND 1 - (embedding <=> query_embedding) > match_threshold
  ORDER BY embedding <=> query_embedding
  LIMIT match_count;
  \<close>
  A row whose embedding is NULL has a NULL similarity and fails the WHERE clause. Postgres
  rejects a negative LIMIT. Rows at the same distance come out in table order here.
\<close>

record match_row =
  row_document_id :: uuid
  row_content :: string
  similarity :: real

datatype sql_error = NegativeLimit

fun with_distance :: "(vector \<Rightarrow> vector \<Rightarrow> real) \<Rightarrow> vector \<Rightarrow> document_chunk \<Rightarrow> (document_chunk \<times> real) list" where
  "with_distance distance query_embedding c =
     (case embedding c of None \<Rightarrow> [] | Some e \<Rightarrow> [(c, distance e query_embedding)])"

definition match_document_chunks ::
  "(vector \<Rightarrow> vector \<Rightarrow> real) \<Rightarrow> document_chunk list \<Rightarrow> vector \<Rightarrow> real \<Rightarrow> int \<Rightarrow> uuid list
     \<Rightarrow> sql_error + match_row list" where
  "match_document_chunks distance table query_embedding match_threshold match_count filter_document_ids =
     (let candidates = concat (map (with_distance distance query_embedding) table);
          selected = filter (\<lambda>(c, d). document_id c \<in> set filter_document_ids
                                      \<and> 1 - d > match_threshold) candidates;
          ordered = sort_key snd selected
      in if match_count < 0 then Inl NegativeLimit
         else Inr (map (\<lambda>(c, d). \<lparr>row_document_id = document_id c, row_content = content c,
                                    similarity = 1 - d\<rparr>)
                     (take (nat match_count) ordered)))"

section \<open>Ingestion: the process-document function\<close>

subsection \<open>Chunker (lines 115-120)\<close>

text \<open>
  \<^verbatim>\<open>
  const chunkSize = 1000;
  const chunks: string[] = [];
  for (let i = 0; i < text.length; i += chunkSize) {
    chunks.push(text.slice(i, i + chunkSize));
  }
  \<close>
\<close>

definition chunkSize :: nat where
  "chunkSize = 1000"

function split_loop :: "'a list \<Rightarrow> nat \<Rightarrow> 'a list list \<Rightarrow> 'a list list" where
  "split_loop text i chunks =
     (if i < length text
      then split_loop text (i + chunkSize) (chunks @ [slice text i (i + chunkSize)])
      else chunks)"
  by pat_completeness auto
termination
  by (relation "measure (\<lambda>(text, i, chunks). length text - i)") (auto simp: chunkSize_def)

definition split_text :: "'a list \<Rightarrow> 'a list list" where
  "split_text text = split_loop text 0 []"

text \<open>The spec's notation \<open>text[a : b]\<close>, for \<open>a \<le> b \<le> length text\<close>.\<close>

definition text_range :: "'a list \<Rightarrow> nat \<Rightarrow> nat \<Rightarrow> 'a list" where
  "text_range text a b = take (b - a) (drop a text)"

subsection \<open>Loading, downloading and extracting (lines 29-113)\<close>

definition load_document :: "database \<Rightarrow> uuid \<Rightarrow> js_throw + document" where
  "load_document db ident =
     (case single (filter (\<lambda>d. doc_id d = ident) (documents db)) of
        None \<Rightarrow> Inl (Error ''Document not found'')
      | Some d \<Rightarrow> Inr d)"

definition download_file :: "environment \<Rightarrow> document \<Rightarrow> js_throw + blob" where
  "download_file env d =
     (case storage_download env (file_path d) of
        DownloadError m \<Rightarrow> Inl (Error (''Failed to download document: '' @ m))
      | DownloadNull \<Rightarrow> Inl (Error ''File data is empty'')
      | Downloaded fileData \<Rightarrow> Inr fileData)"

definition docx_mime :: string where
  "docx_mime = ''application/vnd.openxmlformats-officedocument.wordprocessingml.document''"

definition extract_docx :: "environment \<Rightarrow> blob \<Rightarrow> js_throw + string" where
  "extract_docx env fileData =
     (case (case mammoth_extractRawText env (blob_arrayBuffer fileData) of
              Inl e \<Rightarrow> Inl e
            | Inr v \<Rightarrow>
                if trim v = [] then Inl (Error ''No text could be extracted from DOCX'')
                else Inr (trim v)) of
        Inl docxError \<Rightarrow> Inl (Error (''Failed to parse DOCX: '' @ error_message_of docxError))
      | Inr t \<Rightarrow> Inr t)"

definition extract_pdf :: "environment \<Rightarrow> blob \<Rightarrow> js_throw + string" where
  "extract_pdf env fileData =
     (case (case unpdf_extractText env (blob_arrayBuffer fileData) of
              Inl e \<Rightarrow> Inl e
            | Inr extractedText \<Rightarrow>
                (let t = (case extractedText of
                            Pages ps \<Rightarrow> join ps ''\<newline>\<newline>''
                          | Whole w \<Rightarrow> trim w)
                 in if t = []
                    then Inl (Error ''No text could be extracted from PDF - the document may be image-based or encrypted'')
                    else Inr t)) of
        Inl pdfError \<Rightarrow> Inl (Error (''Failed to parse PDF: '' @ error_message_of pdfError))
      | Inr t \<Rightarrow> Inr t)"

definition extract_text :: "environment \<Rightarrow> document \<Rightarrow> blob \<Rightarrow> js_throw + string" where
  "extract_text env d fileData =
     (let mime = mime_type d; fileName = toLowerCase (file_path d)
      in if mime = Some ''text/plain'' then Inr (blob_text fileData)
         else if mime = Some ''text/csv'' \<or> endsWith fileName ''.csv'' then Inr (blob_text fileData)
         else if mime = Some docx_mime \<or> endsWith fileName ''.docx'' then extract_docx env fileData
         else if mime = Some ''application/pdf'' \<or> endsWith fileName ''.pdf'' then extract_pdf env fileData
         else Inr (blob_text fileData))"

subsection \<open>Credential check (lines 122-131)\<close>

definition check_api_key :: "string option \<Rightarrow> js_throw + string" where
  "check_api_key key =
     (case key of
        None \<Rightarrow> Inl (Error ''OPENAI_API_KEY is not configured or is empty'')
      | Some k \<Rightarrow>
          if k = [] \<or> trim k = [] then Inl (Error ''OPENAI_API_KEY is not configured or is empty'')
          else if CHR 0x0A \<in> set k \<or> CHR 0x0D \<in> set k
          then Inl (Error ''OPENAI_API_KEY contains invalid characters'')
          else Inr k)"

subsection \<open>Embedding loop (lines 133-172)\<close>

text \<open>
  \<open>call\<close> counts the embedding requests of the run, \<open>processedChunks\<close> is the source's
  counter. A non-2xx answer takes the \<^verbatim>\<open>continue\<close>; a throw leaves the loop with the rows
  written so far still in place.
\<close>

fun embed_loop ::
  "environment \<Rightarrow> uuid \<Rightarrow> nat \<Rightarrow> string list \<Rightarrow> nat \<Rightarrow> nat \<Rightarrow> database
     \<Rightarrow> (js_throw + nat) \<times> database" where
  "embed_loop env ident n [] call processedChunks db = (Inr processedChunks, db)"
| "embed_loop env ident n (chunk # rest) call processedChunks db =
     (case embeddings_api env call chunk of
        EmbeddingThrows e \<Rightarrow> (Inl e, db)
      | EmbeddingNotOk st \<Rightarrow> embed_loop env ident n rest (Suc call) processedChunks db
      | EmbeddingOk v \<Rightarrow>
          (let db1 = insert_chunk db
                       \<lparr>document_id = ident, content = chunk, embedding = Some v,
                        chunk_index = Some processedChunks\<rparr>;
               processedChunks' = Suc processedChunks;
               progress = round_percent env processedChunks' n;
               db2 = update_documents db1 ident (\<lambda>d. d\<lparr>processing_progress := Some progress\<rparr>)
           in embed_loop env ident n rest (Suc call) processedChunks' db2))"

subsection \<open>The handler\<close>

definition process_document_try :: "environment \<Rightarrow> database \<Rightarrow> uuid \<Rightarrow> (js_throw + nat) \<times> database" where
  "process_document_try env db ident =
     (case load_document db ident of
        Inl e \<Rightarrow> (Inl e, db)
      | Inr d \<Rightarrow>
     (case download_file env d of
        Inl e \<Rightarrow> (Inl e, db)
      | Inr fileData \<Rightarrow>
     (case extract_text env d fileData of
        Inl e \<Rightarrow> (Inl e, db)
      | Inr text \<Rightarrow>
     (let chunks = split_text text
      in case check_api_key (OPENAI_API_KEY env) of
        Inl e \<Rightarrow> (Inl e, db)
      | Inr key \<Rightarrow>
     (case embed_loop env ident (length chunks) chunks 0 0 db of
        (Inl e, db') \<Rightarrow> (Inl e, db')
      | (Inr processedChunks, db') \<Rightarrow>
          (Inr processedChunks,
           update_documents db' ident
             (\<lambda>d. d\<lparr>status := Some ''completed'', processing_progress := Some 100\<rparr>)))))))"

definition process_document_catch ::
  "database \<Rightarrow> string option \<Rightarrow> js_throw \<Rightarrow> response \<times> database" where
  "process_document_catch db ident error =
     (Response 500 (ErrorBody (error_message_of error)),
      case ident of
        None \<Rightarrow> db
      | Some i \<Rightarrow>
          if i = [] then db
          else update_documents db i
                 (\<lambda>d. d\<lparr>status := Some ''failed'',
                         error_message := Some (error_message_of error)\<rparr>))"

record ingest_request =
  ingest_method :: string
  ingest_json :: "js_throw + string option"

definition process_document :: "environment \<Rightarrow> database \<Rightarrow> ingest_request \<Rightarrow> response \<times> database" where
  "process_document env db req =
     (if ingest_method req = ''OPTIONS'' then (Response 200 NoBody, db)
      else case ingest_json req of
        Inl e \<Rightarrow> process_document_catch db None e
      | Inr None \<Rightarrow> process_document_catch db None (Error ''document_id is required'')
      | Inr (Some ident) \<Rightarrow>
          if ident = [] then process_document_catch db (Some ident) (Error ''document_id is required'')
          else (case process_document_try env db ident of
                  (Inl e, db') \<Rightarrow> process_document_catch db' (Some ident) e
                | (Inr processedChunks, db') \<Rightarrow>
                    (Response 200 (IngestSuccess processedChunks), db')))"

text \<open>
  The answers the embedding service gives to the requests of one run of the loop, in order:
  request number \<open>call + i\<close> carries the \<open>i\<close>-th chunk.
\<close>

fun run_responses :: "environment \<Rightarrow> nat \<Rightarrow> string list \<Rightarrow> embedding_response list" where
  "run_responses env call [] = []"
| "run_responses env call (chunk # rest) =
     embeddings_api env call chunk # run_responses env (Suc call) rest"

fun is_http_error :: "embedding_response \<Rightarrow> bool" where
  "is_http_error (EmbeddingNotOk st) = True"
| "is_http_error r = False"

fun is_vector :: "embedding_response \<Rightarrow> bool" where
  "is_vector (EmbeddingOk v) = True"
| "is_vector r = False"

section \<open>Query: the rag-chat function\<close>

record chat_body =
  message :: "string option"
  body_conversation_id :: "string option"
  body_rag_enabled :: "bool option"

record chat_request =
  chat_method :: string
  chat_authorization :: "string option"
  chat_json :: "js_throw + chat_body"

text \<open>The requests a handler sends to the embedding and the generative model service.\<close>

datatype service_call = EmbeddingsCall string | ChatCompletionsCall "(string \<times> string) list"

fun is_chat_call :: "service_call \<Rightarrow> bool" where
  "is_chat_call (ChatCompletionsCall ms) = True"
| "is_chat_call (EmbeddingsCall t) = False"

subsection \<open>Knowledge-source resolution (lines 40-107)\<close>

record resolved =
  systemPrompt :: string
  ragEnabledForConversation :: bool
  documentIds :: "uuid list"

definition resolve_agent :: "database \<Rightarrow> conversation \<Rightarrow> resolved \<Rightarrow> resolved" where
  "resolve_agent db conv r =
     (if truthy (conv_agent_id conv)
      then (case single (filter (\<lambda>a. Some (agent_id a) = conv_agent_id conv) (agents db)) of
              None \<Rightarrow> r
            | Some a \<Rightarrow>
                r\<lparr>systemPrompt := agent_system_prompt a,
                  ragEnabledForConversation := agent_rag_enabled a,
                  documentIds := or_empty (agent_document_ids a)\<rparr>)
      else r)"

definition resolve_context :: "database \<Rightarrow> conversation \<Rightarrow> resolved \<Rightarrow> resolved" where
  "resolve_context db conv r =
     (if documentIds r = [] \<and> ragEnabledForConversation r \<and> truthy (conv_context_id conv)
      then (case single (filter (\<lambda>c. Some (context_id c) = conv_context_id conv) (contexts db)) of
              None \<Rightarrow> r
            | Some c \<Rightarrow>
                r\<lparr>systemPrompt :=
                    (case context_system_prompt c of
                       None \<Rightarrow> systemPrompt r
                     | Some p \<Rightarrow> if p = [] then systemPrompt r else p),
                  documentIds := or_empty (context_document_ids c)\<rparr>)
      else r)"

definition resolve_conversation :: "database \<Rightarrow> string option \<Rightarrow> bool option \<Rightarrow> resolved" where
  "resolve_conversation db cid rag_enabled =
     (let r = \<lparr>systemPrompt = ''You are a helpful AI assistant.'',
                ragEnabledForConversation = (case rag_enabled of None \<Rightarrow> True | Some b \<Rightarrow> b),
                documentIds = []\<rparr>
      in if truthy cid
         then (case single (filter (\<lambda>c. Some (conversation_id c) = cid) (conversations db)) of
                 None \<Rightarrow> r
               | Some conv \<Rightarrow>
                   resolve_context db conv
                     (resolve_agent db conv (r\<lparr>ragEnabledForConversation := conv_rag_enabled conv\<rparr>)))
         else r)"

text \<open>The fallback query has no ORDER BY; the rows come in table order here.\<close>

definition resolve_user_documents :: "database \<Rightarrow> uuid \<Rightarrow> resolved \<Rightarrow> resolved" where
  "resolve_user_documents db user r =
     (if ragEnabledForConversation r \<and> documentIds r = []
      then (let userDocs = take 100 (filter (\<lambda>d. doc_user_id d = user \<and> status d = Some ''completed'')
                                       (documents db))
            in if userDocs \<noteq> [] then r\<lparr>documentIds := map doc_id userDocs\<rparr> else r)
      else r)"

definition resolve_knowledge :: "database \<Rightarrow> uuid \<Rightarrow> string option \<Rightarrow> bool option \<Rightarrow> resolved" where
  "resolve_knowledge db user cid rag_enabled =
     resolve_user_documents db user (resolve_conversation db cid rag_enabled)"

subsection \<open>Conversation history (lines 109-120)\<close>

text \<open>
  \<^verbatim>\<open>.eq("conversation_id", conversation_id).order("created_at", { ascending: true }).limit(10)\<close>,
  each row then mapped to its role and content.
\<close>

definition conversation_history :: "database \<Rightarrow> string option \<Rightarrow> (string \<times> string) list" where
  "conversation_history db cid =
     (if truthy cid
      then map (\<lambda>m. (role m, msg_content m))
             (take 10 (sort_key msg_created_at
                         (filter (\<lambda>m. Some (msg_conversation_id m) = cid) (messages db))))
      else [])"

subsection \<open>Vector search (lines 122-172)\<close>

record retrieval =
  hasRelevantDocuments :: bool
  relevantContext :: string

definition no_retrieval :: retrieval where
  "no_retrieval = \<lparr>hasRelevantDocuments = False, relevantContext = []\<rparr>"

definition vector_search ::
  "environment \<Rightarrow> database \<Rightarrow> string \<Rightarrow> resolved \<Rightarrow> (js_throw + retrieval) \<times> service_call list" where
  "vector_search env db msg r =
     (if ragEnabledForConversation r \<and> documentIds r \<noteq> []
      then (if truthy (OPENAI_API_KEY env)
            then (case embeddings_api env 0 msg of
                    EmbeddingThrows e \<Rightarrow> (Inl e, [EmbeddingsCall msg])
                  | EmbeddingNotOk st \<Rightarrow> (Inr no_retrieval, [EmbeddingsCall msg])
                  | EmbeddingOk v \<Rightarrow>
                      (let chunks =
                             (case match_document_chunks (cosine_distance env) (document_chunks db)
                                     v (3 / 10) 5 (documentIds r) of
                                Inl rpcError \<Rightarrow> []
                              | Inr rows \<Rightarrow> rows)
                       in if chunks \<noteq> []
                          then (Inr \<lparr>hasRelevantDocuments = True,
                                     relevantContext =
                                       ''\<newline>\<newline>Relevant information from documents:\<newline>''
                                       @ join (map row_content chunks) ''\<newline>\<newline>''\<rparr>,
                                [EmbeddingsCall msg])
                          else (Inr no_retrieval, [EmbeddingsCall msg])))
            else (Inr no_retrieval, []))
      else (Inr no_retrieval, []))"

subsection \<open>Final system prompt (lines 174-195)\<close>

definition not_found_answer :: string where
  "not_found_answer =
     ''Die angefragte Information ist in den bereitgestellten Dokumenten nicht enthalten.''"

definition document_only_instruction :: string where
  \<open>document_only_instruction =
     ''\<newline>\<newline>WICHTIG: Beantworte die Frage ausschlie'' @ [CHR 0xDF] @
     ''lich basierend auf den bereitgestellten Dokumenteninformationen. Wenn die Information nicht in den Dokumenten enthalten ist, antworte mit: "''
     @ not_found_answer @ ''"''\<close>

datatype prompt_decision = Prompt string | NotFoundShortCircuit

definition build_system_prompt :: "resolved \<Rightarrow> retrieval \<Rightarrow> prompt_decision" where
  "build_system_prompt r ret =
     (if ragEnabledForConversation r
      then (if hasRelevantDocuments ret
            then Prompt (systemPrompt r @ relevantContext ret @ document_only_instruction)
            else if documentIds r \<noteq> [] then NotFoundShortCircuit
            else Prompt (systemPrompt r
                         @ ''\<newline>\<newline>RAG is enabled but no documents are available.''))
      else Prompt (systemPrompt r
                   @ ''\<newline>\<newline>RAG is disabled. Answer based on your general knowledge.''))"

subsection \<open>The handler\<close>

text \<open>
  The result is the response, the requests sent to the two model services, and the database
  (the handler appends one row to \<open>logs\<close>). Reading \<^verbatim>\<open>authHeader.replace\<close> on a missing header
  throws a TypeError, whose message text is the engine's.
\<close>

definition generate_answer ::
  "environment \<Rightarrow> resolved \<Rightarrow> retrieval \<Rightarrow> (string \<times> string) list \<Rightarrow> string \<Rightarrow> service_call list
     \<Rightarrow> (js_throw + response) \<times> service_call list" where
  "generate_answer env r ret conversationHistory msg calls =
     (case build_system_prompt r ret of
        NotFoundShortCircuit \<Rightarrow> (Inr (Response 200 (ChatBody not_found_answer True)), calls)
      | Prompt finalSystemPrompt \<Rightarrow>
          if \<not> truthy (OPENAI_API_KEY env)
          then (Inl (Error ''OPENAI_API_KEY is not configured''), calls)
          else (let ms = (''system'', finalSystemPrompt) # conversationHistory @ [(''user'', msg)]
                in case chat_completions_api env ms of
                     ChatThrows e \<Rightarrow> (Inl e, calls @ [ChatCompletionsCall ms])
                   | ChatNotOk st \<Rightarrow>
                       (Inl (Error (''OpenAI API error: '' @ string_of_nat st)),
                        calls @ [ChatCompletionsCall ms])
                   | ChatOk assistantMessage \<Rightarrow>
                       (Inr (Response 200
                               (ChatBody assistantMessage
                                  (ragEnabledForConversation r \<and> relevantContext ret \<noteq> []))),
                        calls @ [ChatCompletionsCall ms])))"

definition rag_chat_try ::
  "environment \<Rightarrow> database \<Rightarrow> chat_request \<Rightarrow> (js_throw + response) \<times> service_call list \<times> database" where
  "rag_chat_try env db req =
     (case chat_json req of
        Inl e \<Rightarrow> (Inl e, [], db)
      | Inr body \<Rightarrow>
     (case message body of
        None \<Rightarrow> (Inl (Error ''Message is required''), [], db)
      | Some msg \<Rightarrow>
     if msg = [] then (Inl (Error ''Message is required''), [], db)
     else
     (let db1 = db\<lparr>logs := logs db @ [''WebSocket connection attempt222'']\<rparr>
      in case chat_authorization req of
        None \<Rightarrow> (Inl (Error ''Cannot read properties of null''), [], db1)
      | Some authHeader \<Rightarrow>
     (case auth_getUser env (replace authHeader ''Bearer '' []) of
        None \<Rightarrow> (Inl (Error ''Unauthorized''), [], db1)
      | Some user \<Rightarrow>
     (let r = resolve_knowledge db1 user (body_conversation_id body) (body_rag_enabled body);
          conversationHistory = conversation_history db1 (body_conversation_id body)
      in case vector_search env db1 msg r of
        (Inl e, calls) \<Rightarrow> (Inl e, calls, db1)
      | (Inr ret, calls) \<Rightarrow>
          (case generate_answer env r ret conversationHistory msg calls of
             (result, calls') \<Rightarrow> (result, calls', db1)))))))"

definition rag_chat ::
  "environment \<Rightarrow> database \<Rightarrow> chat_request \<Rightarrow> response \<times> service_call list \<times> database" where
  "rag_chat env db req =
     (if chat_method req = ''OPTIONS'' then (Response 200 NoBody, [], db)
      else case rag_chat_try env db req of
        (Inl error, calls, db') \<Rightarrow> (Response 500 (ErrorBody (error_message_of error)), calls, db')
      | (Inr res, calls, db') \<Rightarrow> (res, calls, db'))"

section \<open>Query: the chat-search function\<close>

record search_body =
  search_user_id :: "string option"
  search_query :: "string option"

record search_request =
  search_method :: string
  search_json :: "js_throw + search_body"

definition chat_search_try ::
  "environment \<Rightarrow> database \<Rightarrow> search_request \<Rightarrow> (js_throw + response) \<times> service_call list" where
  "chat_search_try env db req =
     (case search_json req of
        Inl e \<Rightarrow> (Inl e, [])
      | Inr body \<Rightarrow>
     (case (search_user_id body, search_query body) of
        (Some user, Some q) \<Rightarrow>
          if user = [] \<or> q = [] then (Inl (Error ''user_id and search_query are required''), [])
          else
          (let docs = filter (\<lambda>d. doc_user_id d = user \<and> status d = Some ''completed'') (documents db)
           in if docs = [] then (Inr (Response 200 (SearchResults [])), [])
              else if \<not> truthy (OPENAI_API_KEY env)
              then (Inl (Error ''OPENAI_API_KEY is not configured''), [])
              else (case embeddings_api env 0 q of
                      EmbeddingThrows e \<Rightarrow> (Inl e, [EmbeddingsCall q])
                    | EmbeddingNotOk st \<Rightarrow>
                        (Inl (Error (''Failed to generate embedding: '' @ string_of_nat st)),
                         [EmbeddingsCall q])
                    | EmbeddingOk v \<Rightarrow>
                        (case match_document_chunks (cosine_distance env) (document_chunks db)
                                v (3 / 10) 5 (map doc_id docs) of
                           Inl searchError \<Rightarrow> (Inl (Error ''Vector search failed''), [EmbeddingsCall q])
                         | Inr chunks \<Rightarrow>
                             (Inr (Response 200
                                     (SearchResults (map (\<lambda>c. (row_content c, similarity c)) chunks))),
                              [EmbeddingsCall q]))))
      | other \<Rightarrow> (Inl (Error ''user_id and search_query are required''), [])))"

definition chat_search ::
  "environment \<Rightarrow> database \<Rightarrow> search_request \<Rightarrow> response \<times> service_call list" where
  "chat_search env db req =
     (if search_method req = ''OPTIONS'' then (Response 200 NoBody, [])
      else case chat_search_try env db req of
        (Inl error, calls) \<Rightarrow> (Response 500 (SearchError (error_message_of error)), calls)
      | (Inr res, calls) \<Rightarrow> (res, calls))"

section \<open>Voice session: the knowledge base of gemini-realtime (lines 41-111)\<close>

definition gemini_agent_documents :: "database \<Rightarrow> conversation \<Rightarrow> uuid list \<Rightarrow> uuid list" where
  "gemini_agent_documents db conv ids =
     (if truthy (conv_agent_id conv)
      then (case single (filter (\<lambda>a. Some (agent_id a) = conv_agent_id conv) (agents db)) of
              None \<Rightarrow> ids
            | Some a \<Rightarrow> if or_empty (agent_document_ids a) \<noteq> []
                        then ids @ or_empty (agent_document_ids a) else ids)
      else ids)"

definition gemini_context_documents :: "database \<Rightarrow> conversation \<Rightarrow> uuid list \<Rightarrow> uuid list" where
  "gemini_context_documents db conv ids =
     (if truthy (conv_context_id conv)
      then (case single (filter (\<lambda>c. Some (context_id c) = conv_context_id conv) (contexts db)) of
              None \<Rightarrow> ids
            | Some c \<Rightarrow> if or_empty (context_document_ids c) \<noteq> []
                        then ids @ or_empty (context_document_ids c) else ids)
      else ids)"

definition gemini_document_ids :: "database \<Rightarrow> uuid \<Rightarrow> string option \<Rightarrow> uuid list" where
  "gemini_document_ids db userId cid =
     (let ids =
            (if truthy cid
             then (case single (filter (\<lambda>c. Some (conversation_id c) = cid) (conversations db)) of
                     None \<Rightarrow> []
                   | Some conv \<Rightarrow>
                       gemini_context_documents db conv (gemini_agent_documents db conv []))
             else [])
      in if ids = []
         then (let userDocs =
                     take 5 (rev (sort_key doc_created_at
                                    (filter (\<lambda>d. doc_user_id d = userId \<and> status d = Some ''completed'')
                                       (documents db))))
               in if userDocs \<noteq> [] then map doc_id userDocs else ids)
         else ids)"

text \<open>\<^verbatim>\<open>.from("document_chunks").select("content, document_id").in("document_id", documentIds).limit(100)\<close>\<close>

definition gemini_fetch_chunks :: "database \<Rightarrow> uuid list \<Rightarrow> document_chunk list" where
  "gemini_fetch_chunks db ids =
     (if ids \<noteq> []
      then take 100 (filter (\<lambda>c. document_id c \<in> set ids) (document_chunks db))
      else [])"

section \<open>Example inputs\<close>

text \<open>
  One user with one uploaded plain-text document, and an environment built from the
  credential, the content of the stored file and the answers of the embedding service by
  request number. \<open>round_percent\<close> rounds the exact quotient half up.
\<close>

definition example_document :: document where
  "example_document =
     \<lparr>doc_id = ''doc-1'', doc_user_id = ''user-1'', file_path = ''user-1/notes.txt'',
      mime_type = Some ''text/plain'', status = Some ''processing'',
      processing_progress = Some 0, error_message = None, doc_created_at = 1\<rparr>"

definition example_database :: database where
  "example_database =
     \<lparr>documents = [example_document], document_chunks = [], agents = [], contexts = [],
      conversations = [], messages = [], logs = []\<rparr>"

definition example_environment ::
  "string option \<Rightarrow> string \<Rightarrow> (nat \<Rightarrow> embedding_response) \<Rightarrow> environment" where
  "example_environment key file answers =
     \<lparr>OPENAI_API_KEY = key,
      storage_download = (\<lambda>path. Downloaded \<lparr>blob_text = file, blob_arrayBuffer = []\<rparr>),
      mammoth_extractRawText = (\<lambda>bytes. Inl NonError),
      unpdf_extractText = (\<lambda>bytes. Inl NonError),
      embeddings_api = (\<lambda>call input. answers call),
      chat_completions_api = (\<lambda>ms. ChatOk ''answer''),
      auth_getUser = (\<lambda>token. if token = ''token-1'' then Some ''user-1'' else None),
      cosine_distance = (\<lambda>a b. 0),
      round_percent = (\<lambda>p n. (200 * int p + int n) div (2 * int n))\<rparr>"

definition example_request :: ingest_request where
  "example_request = \<lparr>ingest_method = ''POST'', ingest_json = Inr (Some ''doc-1'')\<rparr>"

text \<open>
  For the query side: the document is completed and has one stored chunk; conversation
  \<open>conv-1\<close> is bound to an agent with the knowledge base \<open>doc-a\<close> and to a context with the
  document \<open>doc-x\<close>; conversation \<open>conv-2\<close> has RAG switched off and holds eleven messages,
  written at times 0 to 10.
\<close>

definition example_message :: "nat \<Rightarrow> message_row" where
  "example_message i =
     \<lparr>msg_conversation_id = ''conv-2'', role = (if even i then ''user'' else ''assistant''),
      msg_content = ''message '' @ string_of_nat i, msg_created_at = i\<rparr>"

definition example_chat_database :: database where
  "example_chat_database =
     \<lparr>documents = [example_document\<lparr>status := Some ''completed'', processing_progress := Some 100\<rparr>],
      document_chunks =
        [\<lparr>document_id = ''doc-1'', content = ''alpha'', embedding = Some [1], chunk_index = Some 0\<rparr>],
      agents =
        [\<lparr>agent_id = ''agent-1'', agent_system_prompt = ''You are the agent.'',
          agent_rag_enabled = False, agent_document_ids = Some [''doc-a'']\<rparr>],
      contexts =
        [\<lparr>context_id = ''ctx-1'', context_document_ids = Some [''doc-x''],
          context_system_prompt = None\<rparr>],
      conversations =
        [\<lparr>conversation_id = ''conv-1'', conv_agent_id = Some ''agent-1'', conv_rag_enabled = True,
          conv_context_id = Some ''ctx-1''\<rparr>,
         \<lparr>conversation_id = ''conv-2'', conv_agent_id = None, conv_rag_enabled = False,
          conv_context_id = None\<rparr>],
      messages = map example_message [0, 1, 2, 3, 4, 5, 6, 7, 8, 9, 10],
      logs = []\<rparr>"

definition example_chat_request :: "string option \<Rightarrow> chat_request" where
  "example_chat_request cid =
     \<lparr>chat_method = ''POST'', chat_authorization = Some ''Bearer token-1'',
      chat_json = Inr \<lparr>message = Some ''question'', body_conversation_id = cid,
                       body_rag_enabled = None\<rparr>\<rparr>"

section \<open>Verification\<close>

declare split_loop.simps [simp del]
declare string_of_nat.simps [simp del]

subsection \<open>Chunker\<close>



lemma ceiling_div_nat:
  fixes n c :: nat
  assumes c: "0 < c"
  shows "nat \<lceil>real n / real c\<rceil> = (n + (c - 1)) div c"
proof -
  define q where "q = (n + (c - 1)) div c"
  have lo: "q * c \<le> n + (c - 1)"
    unfolding q_def by (rule div_times_less_eq_dividend)
  have hi: "n + (c - 1) < Suc q * c"
    unfolding q_def using c by (metis dividend_less_div_times mult.commute mult_Suc_right add.commute mult_Suc)
  have n_le: "n \<le> q * c" using hi c by simp
  have "\<lceil>real n / real c\<rceil> = int q"
  proof (rule ceiling_unique)
    have "real q * real c < real n + real c"
    proof -
      have "q * c < n + c" using lo c by arith
      then have "real (q * c) < real (n + c)" by (simp only: of_nat_less_iff)
      then show ?thesis by simp
    qed
    then have "(real q - 1) * real c < real n" by (simp add: algebra_simps)
    then show "real_of_int (int q) - 1 < real n / real c"
      using c by (simp add: pos_less_divide_eq)
  next
    have "real n \<le> real (q * c)" using n_le by (simp only: of_nat_le_iff)
    then show "real n / real c \<le> real_of_int (int q)"
      using c by (simp add: pos_divide_le_eq)
  qed
  then show ?thesis unfolding q_def by simp
qed




lemma chunkSize_pos: "0 < chunkSize" by (simp add: chunkSize_def)

lemma split_loop_done: "\<not> i < length t \<Longrightarrow> split_loop t i acc = acc"
  by (subst split_loop.simps) simp

lemma split_loop_step:
  "i < length t \<Longrightarrow> split_loop t i acc = split_loop t (i + chunkSize) (acc @ [slice t i (i + chunkSize)])"
  by (subst split_loop.simps) simp

lemma split_loop_acc: "split_loop t i acc = acc @ split_loop t i []"
proof (induction "length t - i" arbitrary: i acc rule: less_induct)
  case less
  show ?case
  proof (cases "i < length t")
    case True
    then have dec: "length t - (i + chunkSize) < length t - i"
      using chunkSize_pos by arith
    let ?c = "slice t i (i + chunkSize)"
    have "split_loop t i acc = split_loop t (i + chunkSize) (acc @ [?c])"
      using True by (rule split_loop_step)
    also have "\<dots> = (acc @ [?c]) @ split_loop t (i + chunkSize) []"
      by (rule less [OF dec])
    finally have a: "split_loop t i acc = acc @ ?c # split_loop t (i + chunkSize) []"
      by simp
    have "split_loop t i [] = split_loop t (i + chunkSize) ([] @ [?c])"
      using True by (rule split_loop_step)
    also have "\<dots> = ([] @ [?c]) @ split_loop t (i + chunkSize) []"
      by (rule less [OF dec])
    finally have b: "split_loop t i [] = ?c # split_loop t (i + chunkSize) []"
      by simp
    show ?thesis by (simp only: a b)
  next
    case False
    then show ?thesis by (simp add: split_loop_done)
  qed
qed

lemma split_loop_unfold:
  "i < length t \<Longrightarrow> split_loop t i [] = slice t i (i + chunkSize) # split_loop t (i + chunkSize) []"
  using split_loop_acc [of t "i + chunkSize" "[slice t i (i + chunkSize)]"]
  by (simp add: split_loop_step)

lemma slice_take_drop: "slice s a (a + n) = take n (drop a s)"
  by (auto simp: slice_def Let_def min_def)

lemma concat_split_loop: "concat (split_loop t i []) = drop i t"
proof (induction "length t - i" arbitrary: i rule: less_induct)
  case less
  show ?case
  proof (cases "i < length t")
    case True
    then have dec: "length t - (i + chunkSize) < length t - i"
      using chunkSize_pos by arith
    have "concat (split_loop t i []) = take chunkSize (drop i t) @ drop (i + chunkSize) t"
      using True less [OF dec] by (simp add: split_loop_unfold slice_take_drop)
    also have "\<dots> = drop i t"
      by (metis add.commute append_take_drop_id drop_drop)
    finally show ?thesis .
  next
    case False
    then show ?thesis by (simp add: split_loop_done)
  qed
qed

lemma ceil_step:
  fixes c m :: nat
  assumes "0 < c" "0 < m"
  shows "Suc ((m - c + (c - 1)) div c) = (m + (c - 1)) div c"
proof (cases "c \<le> m")
  case True
  then have "m + (c - 1) = (m - c + (c - 1)) + c" by arith
  then have "(m + (c - 1)) div c = (m - c + (c - 1)) div c + 1"
    using assms(1) by (metis div_add_self2 less_numeral_extra(3))
  then show ?thesis by simp
next
  case False
  then have a: "m - c = 0" by simp
  have b: "(c - 1) div c = 0" using assms(1) by simp
  have "c * 1 \<le> m + (c - 1)" using assms by arith
  moreover have "m + (c - 1) < c * Suc 1" using False by arith
  ultimately have "(m + (c - 1)) div c = 1" by (rule div_nat_eqI)
  with a b show ?thesis by simp
qed

lemma length_split_loop:
  "length (split_loop t i []) = (length t - i + (chunkSize - 1)) div chunkSize"
proof (induction "length t - i" arbitrary: i rule: less_induct)
  case less
  show ?case
  proof (cases "i < length t")
    case True
    then have dec: "length t - (i + chunkSize) < length t - i"
      using chunkSize_pos by arith
    have "length (split_loop t i []) = Suc ((length t - (i + chunkSize) + (chunkSize - 1)) div chunkSize)"
      using less [OF dec] by (simp only: split_loop_unfold [OF True] list.size length_Cons)
    also have "\<dots> = Suc ((length t - i - chunkSize + (chunkSize - 1)) div chunkSize)"
      by (simp add: diff_diff_left add.commute)
    also have "\<dots> = (length t - i + (chunkSize - 1)) div chunkSize"
      using True by (intro ceil_step chunkSize_pos) simp
    finally show ?thesis .
  next
    case False
    then show ?thesis using chunkSize_pos by (simp add: split_loop_done)
  qed
qed

lemma nth_split_loop:
  "k < length (split_loop t i []) \<Longrightarrow>
   split_loop t i [] ! k = slice t (i + k * chunkSize) (i + k * chunkSize + chunkSize)"
proof (induction k arbitrary: i)
  case 0
  then have "i < length t" by (auto simp: split_loop_done intro: ccontr)
  then show ?case by (simp add: split_loop_unfold)
next
  case (Suc k)
  then have lt: "i < length t" by (auto simp: split_loop_done intro: ccontr)
  with Suc.prems have "k < length (split_loop t (i + chunkSize) [])"
    by (simp add: split_loop_unfold)
  from Suc.IH [OF this] lt show ?case
    by (simp add: split_loop_unfold add.assoc add.commute add.left_commute)
qed


lemma slice_window:
  "a < length s \<Longrightarrow> slice s a (a + n) = text_range s a (min (a + n) (length s))"
  by (simp add: slice_def Let_def text_range_def min_def)

lemma length_split_text:
  "length (split_text t) = nat \<lceil>real (length t) / real chunkSize\<rceil>"
  unfolding split_text_def
  by (simp add: length_split_loop ceiling_div_nat [OF chunkSize_pos])

lemma window_in_text:
  assumes "i < length (split_text t)"
  shows "i * chunkSize < length t"
proof -
  have "Suc i \<le> (length t + (chunkSize - 1)) div chunkSize"
    using assms by (simp add: split_text_def length_split_loop)
  then have "Suc i * chunkSize \<le> length t + (chunkSize - 1)"
    using chunkSize_pos by (simp add: less_eq_div_iff_mult_less_eq)
  then show ?thesis using chunkSize_pos by simp
qed

lemma nth_split_text:
  assumes "i < length (split_text t)"
  shows "split_text t ! i
         = text_range t (i * chunkSize) (min ((i + 1) * chunkSize) (length t))"
proof -
  have "split_text t ! i = slice t (i * chunkSize) (i * chunkSize + chunkSize)"
    using assms nth_split_loop [of i t 0] by (simp add: split_text_def)
  also have "\<dots> = text_range t (i * chunkSize) (min (i * chunkSize + chunkSize) (length t))"
    using window_in_text [OF assms] by (rule slice_window)
  finally show ?thesis by (simp add: add.commute)
qed

text \<open>
  C2. For every text of length \<open>L\<close>, with the chunk size fixed at 1000, the chunker produces
  \<open>ceil(L / C)\<close> chunks, chunk \<open>i\<close> is \<open>text[i * C : min((i + 1) * C, L)]\<close>, the chunks
  concatenated in order give the text back, and the empty text has no chunks.
\<close>

theorem chunker_windows:
  "chunkSize = 1000
   \<and> length (split_text t) = nat \<lceil>real (length t) / real chunkSize\<rceil>
   \<and> (\<forall>i < length (split_text t).
         split_text t ! i = text_range t (i * chunkSize) (min ((i + 1) * chunkSize) (length t)))
   \<and> concat (split_text t) = t
   \<and> split_text ([] :: 'a list) = []"
proof (intro conjI allI impI)
  show "chunkSize = 1000" by (rule chunkSize_def)
  show "length (split_text t) = nat \<lceil>real (length t) / real chunkSize\<rceil>"
    by (rule length_split_text)
  show "concat (split_text t) = t"
    by (simp add: split_text_def concat_split_loop)
  show "split_text ([] :: 'a list) = []"
    by (simp add: split_text_def split_loop_done)
next
  fix i assume "i < length (split_text t)"
  then show "split_text t ! i
             = text_range t (i * chunkSize) (min ((i + 1) * chunkSize) (length t))"
    by (rule nth_split_text)
qed

theorem chunker_windows_witness:
  "length (split_text (replicate 2500 (CHR ''x''))) = 3
   \<and> (2::nat) < 3
   \<and> split_text (replicate 2500 (CHR ''x'')) ! 2 = replicate 500 (CHR ''x'')
   \<and> concat (split_text (replicate 2500 (CHR ''x''))) = replicate 2500 (CHR ''x'')"
proof -
  let ?t = "replicate 2500 (CHR ''x'')"
  have w: "length (split_text ?t) = nat \<lceil>real (length ?t) / real chunkSize\<rceil>"
    "\<forall>i < length (split_text ?t).
         split_text ?t ! i = text_range ?t (i * chunkSize) (min ((i + 1) * chunkSize) (length ?t))"
    "concat (split_text ?t) = ?t"
    using chunker_windows [of ?t] by blast+
  have len: "length (split_text ?t) = 3"
    using w(1) by (simp add: chunkSize_def)
  then have "2 < length (split_text ?t)" by simp
  with w(2) have "split_text ?t ! 2
               = text_range ?t (2 * chunkSize) (min ((2 + 1) * chunkSize) (length ?t))"
    by blast
  then have third: "split_text ?t ! 2 = replicate 500 (CHR ''x'')"
    by (simp add: chunkSize_def text_range_def)
  with len w(3) show ?thesis by simp
qed

subsection \<open>Similarity search\<close>

lemma with_distance_chunk:
  "(c, d) \<in> set (concat (map (with_distance distance q) table)) \<Longrightarrow> c \<in> set table"
  by (auto split: option.splits)

text \<open>
  C1. The similarity search returns only chunks whose \<open>document_id\<close> is in the document-ID
  set passed to it: every returned row is a chunk of the table owned by a document of that
  set. The chunk query of the voice session has the same bound.
\<close>

theorem similarity_search_within_filter:
  "(\<forall>rows. match_document_chunks distance table q threshold k ids = Inr rows \<longrightarrow>
      (\<forall>r \<in> set rows. row_document_id r \<in> set ids
         \<and> (\<exists>c \<in> set table. document_id c = row_document_id r \<and> content c = row_content r)))
   \<and> (\<forall>c \<in> set (gemini_fetch_chunks db ids). document_id c \<in> set ids \<and> c \<in> set (document_chunks db))"
proof (intro conjI allI impI ballI)
  fix rows r
  assume res: "match_document_chunks distance table q threshold k ids = Inr rows"
    and r: "r \<in> set rows"
  define selected where
    "selected = filter (\<lambda>(c, d). document_id c \<in> set ids \<and> 1 - d > threshold)
                  (concat (map (with_distance distance q) table))"
  from res have rows: "rows = map (\<lambda>(c, d). \<lparr>row_document_id = document_id c, row_content = content c,
                                    similarity = 1 - d\<rparr>) (take (nat k) (sort_key snd selected))"
    by (simp add: match_document_chunks_def Let_def selected_def split: if_splits)
  with r obtain c d where cd: "(c, d) \<in> set (take (nat k) (sort_key snd selected))"
    and r_eq: "r = \<lparr>row_document_id = document_id c, row_content = content c, similarity = 1 - d\<rparr>"
    by auto
  from cd have "(c, d) \<in> set selected"
    by (auto dest: in_set_takeD)
  then have "document_id c \<in> set ids" and "c \<in> set table"
    by (auto simp: selected_def dest: with_distance_chunk)
  with r_eq show "row_document_id r \<in> set ids"
    and "\<exists>c \<in> set table. document_id c = row_document_id r \<and> content c = row_content r"
    by auto
next
  fix c assume "c \<in> set (gemini_fetch_chunks db ids)"
  then have "c \<in> set (filter (\<lambda>c. document_id c \<in> set ids) (document_chunks db))"
    by (auto simp: gemini_fetch_chunks_def split: if_splits dest: in_set_takeD)
  then show "document_id c \<in> set ids" and "c \<in> set (document_chunks db)" by auto
qed

theorem similarity_search_within_filter_witness:
  "match_document_chunks (\<lambda>a b. 0)
      [\<lparr>document_id = ''d1'', content = ''alpha'', embedding = Some [1], chunk_index = Some 0\<rparr>,
       \<lparr>document_id = ''d2'', content = ''beta'', embedding = Some [1], chunk_index = Some 0\<rparr>]
      [1] (3 / 10) 5 [''d1'']
     = Inr [\<lparr>row_document_id = ''d1'', row_content = ''alpha'', similarity = 1\<rparr>]
   \<and> row_document_id \<lparr>row_document_id = ''d1'', row_content = ''alpha'', similarity = 1\<rparr> \<in> set [''d1'']"
  using similarity_search_within_filter
    [of "\<lambda>a b. 0"
        "[\<lparr>document_id = ''d1'', content = ''alpha'', embedding = Some [1], chunk_index = Some 0\<rparr>,
          \<lparr>document_id = ''d2'', content = ''beta'', embedding = Some [1], chunk_index = Some 0\<rparr>]"
        "[1]" "3 / 10" 5 "[''d1'']"]
  by (simp add: match_document_chunks_def)


subsection \<open>Tables under the two writes of the pipeline\<close>

lemma document_chunks_update_documents [simp]:
  "document_chunks (update_documents db i f) = document_chunks db"
  by (simp add: update_documents_def)

lemma documents_update_documents:
  "documents (update_documents db i f) = map (\<lambda>d. if doc_id d = i then f d else d) (documents db)"
  by (simp add: update_documents_def)

lemma documents_insert_chunk [simp]: "documents (insert_chunk db row) = documents db"
  by (simp add: insert_chunk_def)

lemma document_chunks_insert_chunk [simp]:
  "document_chunks (insert_chunk db row) = document_chunks db @ [row]"
  by (simp add: insert_chunk_def)

lemma doc_ids_update_documents:
  "(\<And>d. doc_id (f d) = doc_id d) \<Longrightarrow>
   map doc_id (documents (update_documents db i f)) = map doc_id (documents db)"
  by (simp add: documents_update_documents comp_def)

lemma single_Some: "single rows = Some r \<longleftrightarrow> rows = [r]"
  by (cases rows rule: single.cases) auto

lemma load_document_Inr:
  "load_document db ident = Inr d \<longleftrightarrow> filter (\<lambda>x. doc_id x = ident) (documents db) = [d]"
  by (auto simp: load_document_def single_Some split: option.splits)

lemma length_filter_doc_id:
  "length (filter (\<lambda>x. doc_id x = ident) zs) = length (filter (\<lambda>i. i = ident) (map doc_id zs))"
  by (induction zs) auto

lemma filter_doc_id_same_ids:
  assumes "map doc_id xs = map doc_id ys"
  shows "length (filter (\<lambda>x. doc_id x = ident) xs) = length (filter (\<lambda>x. doc_id x = ident) ys)"
  by (simp only: length_filter_doc_id assms)

lemma load_document_same_ids:
  assumes "load_document db ident = Inr d"
    and "map doc_id (documents db') = map doc_id (documents db)"
  shows "\<exists>d'. load_document db' ident = Inr d'"
proof -
  have "length (filter (\<lambda>x. doc_id x = ident) (documents db')) = 1"
    using assms filter_doc_id_same_ids [OF assms(2), of ident]
    by (simp add: load_document_Inr)
  then obtain d' where "filter (\<lambda>x. doc_id x = ident) (documents db') = [d']"
    by (auto simp: length_Suc_conv)
  then show ?thesis by (auto simp: load_document_Inr)
qed

lemma load_document_updated:
  assumes "load_document db ident = Inr d" and "\<And>x. doc_id (f x) = doc_id x"
  shows "load_document (update_documents db ident f) ident = Inr (f d)"
proof -
  let ?g = "\<lambda>x. if doc_id x = ident then f x else x"
  have "filter (\<lambda>x. doc_id x = ident) (map ?g (documents db))
        = map ?g (filter (\<lambda>x. doc_id x = ident) (documents db))"
    using assms(2) by (induction "documents db" arbitrary: db) (auto simp: filter_map comp_def)
  moreover have "doc_id d = ident"
    using assms(1) by (metis (mono_tags, lifting) filter_eq_ConsD list.set_intros(1) load_document_Inr mem_Collect_eq set_filter)
  ultimately show ?thesis
    using assms(1) by (simp add: load_document_Inr documents_update_documents)
qed

subsection \<open>The embedding loop\<close>

lemma length_run_responses [simp]: "length (run_responses env call cs) = length cs"
  by (induction cs arbitrary: call) auto

lemma nth_run_responses:
  "i < length cs \<Longrightarrow> run_responses env call cs ! i = embeddings_api env (call + i) (cs ! i)"
proof (induction cs arbitrary: call i)
  case Nil
  then show ?case by simp
next
  case (Cons c cs)
  then show ?case by (cases i) auto
qed

lemma embed_loop_effect:
  assumes "\<forall>r \<in> set (run_responses env call cs). is_http_error r \<or> is_vector r"
  shows "\<exists>db' new.
           embed_loop env ident n cs call p db = (Inr (p + length new), db')
         \<and> document_chunks db' = document_chunks db @ new
         \<and> map content new
             = map fst (filter (\<lambda>(c, r). is_vector r) (zip cs (run_responses env call cs)))
         \<and> map chunk_index new = map Some [p..<p + length new]
         \<and> (\<forall>c \<in> set new. document_id c = ident)
         \<and> map doc_id (documents db') = map doc_id (documents db)"
  using assms
proof (induction cs arbitrary: call p db)
  case Nil
  then show ?case by simp
next
  case (Cons c cs)
  from Cons.prems have rest: "\<forall>r \<in> set (run_responses env (Suc call) cs). is_http_error r \<or> is_vector r"
    by simp
  show ?case
  proof (cases "embeddings_api env call c")
    case (EmbeddingThrows e)
    with Cons.prems show ?thesis by simp
  next
    case (EmbeddingNotOk st)
    from Cons.IH [OF rest, of p db] EmbeddingNotOk show ?thesis by simp
  next
    case (EmbeddingOk v)
    let ?row = "\<lparr>document_id = ident, content = c, embedding = Some v, chunk_index = Some p\<rparr>"
    let ?db2 = "update_documents (insert_chunk db ?row) ident
                  (\<lambda>d. d\<lparr>processing_progress := Some (round_percent env (Suc p) n)\<rparr>)"
    from Cons.IH [OF rest, of "Suc p" ?db2] obtain db' new where
      run: "embed_loop env ident n cs (Suc call) (Suc p) ?db2 = (Inr (Suc p + length new), db')"
      and chunks: "document_chunks db' = document_chunks ?db2 @ new"
      and contents: "map content new
             = map fst (filter (\<lambda>(c, r). is_vector r) (zip cs (run_responses env (Suc call) cs)))"
      and indexes: "map chunk_index new = map Some [Suc p..<Suc p + length new]"
      and owner: "\<forall>c \<in> set new. document_id c = ident"
      and ids: "map doc_id (documents db') = map doc_id (documents ?db2)"
      by blast
    have "embed_loop env ident n (c # cs) call p db = (Inr (p + length (?row # new)), db')"
      using EmbeddingOk run by (simp add: Let_def)
    moreover have "document_chunks db' = document_chunks db @ ?row # new"
      using chunks by simp
    moreover have "map content (?row # new)
             = map fst (filter (\<lambda>(c, r). is_vector r) (zip (c # cs) (run_responses env call (c # cs))))"
      using contents EmbeddingOk by simp
    moreover have "map chunk_index (?row # new) = map Some [p..<p + length (?row # new)]"
      using indexes by (simp del: upt_Suc add: upt_conv_Cons)
    moreover have "\<forall>x \<in> set (?row # new). document_id x = ident"
      using owner by simp
    moreover have "map doc_id (documents db') = map doc_id (documents db)"
      using ids by (simp add: doc_ids_update_documents)
    ultimately show ?thesis by blast
  qed
qed

lemma accepted_one_failure:
  fixes cs :: "string list"
  assumes len: "length rs = length cs" and j: "j < length cs"
    and fail: "is_http_error (rs ! j)"
    and ok: "\<forall>i < length cs. i \<noteq> j \<longrightarrow> is_vector (rs ! i)"
  shows "map fst (filter (\<lambda>(c, r). is_vector r) (zip cs rs)) = take j cs @ drop (Suc j) cs"
proof -
  let ?P = "\<lambda>(c :: string, r). is_vector r"
  have cs: "cs = take j cs @ cs ! j # drop (Suc j) cs"
    using j by (rule id_take_nth_drop)
  have rs: "rs = take j rs @ rs ! j # drop (Suc j) rs"
    using j len by (intro id_take_nth_drop) simp
  have split: "zip cs rs = zip (take j cs) (take j rs) @ (cs ! j, rs ! j) # zip (drop (Suc j) cs) (drop (Suc j) rs)"
    by (subst cs, subst rs) (simp add: len zip_append del: append_take_drop_id)
  have before: "filter ?P (zip (take j cs) (take j rs)) = zip (take j cs) (take j rs)"
  proof (rule filter_True, clarify)
    fix c r assume "(c, r) \<in> set (zip (take j cs) (take j rs))"
    then obtain i where "i < j" "r = rs ! i"
      using j len by (auto simp: in_set_zip)
    with ok j show "is_vector r" by simp
  qed
  have after: "filter ?P (zip (drop (Suc j) cs) (drop (Suc j) rs)) = zip (drop (Suc j) cs) (drop (Suc j) rs)"
  proof (rule filter_True, clarify)
    fix c r assume "(c, r) \<in> set (zip (drop (Suc j) cs) (drop (Suc j) rs))"
    then obtain i where "i < length cs - Suc j" "r = rs ! (Suc j + i)"
      using j len by (auto simp: in_set_zip)
    then have "Suc j + i < length cs" "Suc j + i \<noteq> j" "r = rs ! (Suc j + i)"
      by auto
    with ok show "is_vector r" by blast
  qed
  have middle: "\<not> is_vector (rs ! j)"
    using fail by (cases "rs ! j") auto
  have "filter ?P (zip cs rs) = zip (take j cs) (take j rs) @ zip (drop (Suc j) cs) (drop (Suc j) rs)"
    by (subst split) (simp add: before after middle)
  then show ?thesis
    using len by (simp add: map_fst_zip_take min_def)
qed


subsection \<open>Ingestion outcomes\<close>

lemma process_document_post:
  assumes "ingest_method req \<noteq> ''OPTIONS''" and "ingest_json req = Inr (Some ident)"
    and "ident \<noteq> []"
  shows "process_document env db req =
           (case process_document_try env db ident of
              (Inl e, db') \<Rightarrow> process_document_catch db' (Some ident) e
            | (Inr processedChunks, db') \<Rightarrow> (Response 200 (IngestSuccess processedChunks), db'))"
  using assms by (simp add: process_document_def)

text \<open>
  The path the loop does handle: in a run over \<open>N > 1\<close> chunks where exactly one embedding
  request, the \<open>j\<close>-th, is answered with an HTTP error and every other one with a vector,
  the failed chunk is skipped and the loop goes on. The run answers with \<open>N - 1\<close> processed
  chunks, exactly the other \<open>N - 1\<close> chunks are appended to the chunk table in order, and
  the document ends with status completed and progress 100.
\<close>

lemma http_error_chunk_is_skipped:
  assumes req: "ingest_method req \<noteq> ''OPTIONS''" "ingest_json req = Inr (Some ident)" "ident \<noteq> []"
    and loaded: "load_document db ident = Inr d"
    and download: "download_file env d = Inr fileData"
    and extracted: "extract_text env d fileData = Inr t"
    and key: "check_api_key (OPENAI_API_KEY env) = Inr k"
    and chunks: "chunks = split_text t" "N = length chunks" "1 < N" "j < N"
    and failed: "is_http_error (embeddings_api env j (chunks ! j))"
    and others: "\<forall>i < N. i \<noteq> j \<longrightarrow> is_vector (embeddings_api env i (chunks ! i))"
  shows "\<exists>db' new d'.
           process_document env db req = (Response 200 (IngestSuccess (N - 1)), db')
         \<and> document_chunks db' = document_chunks db @ new
         \<and> length new = N - 1
         \<and> map content new = take j chunks @ drop (Suc j) chunks
         \<and> (\<forall>c \<in> set new. document_id c = ident)
         \<and> load_document db' ident = Inr d'
         \<and> status d' = Some ''completed''
         \<and> processing_progress d' = Some 100"
proof -
  let ?rs = "run_responses env 0 chunks"
  have nth: "\<And>i. i < N \<Longrightarrow> ?rs ! i = embeddings_api env i (chunks ! i)"
    using chunks(2) by (simp add: nth_run_responses)
  have no_throw: "\<forall>r \<in> set ?rs. is_http_error r \<or> is_vector r"
  proof
    fix r assume "r \<in> set ?rs"
    then obtain i where i: "i < N" "r = ?rs ! i"
      using chunks(2) by (auto simp: in_set_conv_nth)
    then show "is_http_error r \<or> is_vector r"
      using failed others nth by (cases "i = j") auto
  qed
  from embed_loop_effect [OF no_throw, of ident N 0 db] obtain db1 new where
    loop: "embed_loop env ident N chunks 0 0 db = (Inr (length new), db1)"
    and appended: "document_chunks db1 = document_chunks db @ new"
    and contents: "map content new = map fst (filter (\<lambda>(c, r). is_vector r) (zip chunks ?rs))"
    and owner: "\<forall>c \<in> set new. document_id c = ident"
    and ids: "map doc_id (documents db1) = map doc_id (documents db)"
    by auto
  have kept: "map content new = take j chunks @ drop (Suc j) chunks"
    unfolding contents
  proof (rule accepted_one_failure)
    show "length ?rs = length chunks" by simp
    show "j < length chunks" using chunks by simp
    show "is_http_error (?rs ! j)" using failed nth chunks by simp
    show "\<forall>i < length chunks. i \<noteq> j \<longrightarrow> is_vector (?rs ! i)"
      using others nth chunks by simp
  qed
  have "length (map content new) = N - 1"
    unfolding kept using chunks by simp
  then have count: "length new = N - 1" by simp
  let ?done = "\<lambda>x. x\<lparr>status := Some ''completed'', processing_progress := Some 100\<rparr>"
  define db' where "db' = update_documents db1 ident ?done"
  have "process_document_try env db ident = (Inr (length new), db')"
    using loaded download extracted key loop chunks(1,2)
    by (simp add: process_document_try_def Let_def db'_def)
  then have result: "process_document env db req = (Response 200 (IngestSuccess (N - 1)), db')"
    using req count by (simp add: process_document_post)
  from load_document_same_ids [OF loaded ids] obtain d1 where "load_document db1 ident = Inr d1"
    by blast
  then have final: "load_document db' ident = Inr (?done d1)"
    unfolding db'_def by (rule load_document_updated) simp
  have "document_chunks db' = document_chunks db @ new"
    using appended by (simp add: db'_def)
  with result count kept owner final show ?thesis
    by (intro exI [of _ db'] exI [of _ new] exI [of _ "?done d1"]) simp
qed

lemma split_text_1001:
  "split_text (replicate 1000 (CHR ''a'') @ ''b'') = [replicate 1000 (CHR ''a''), ''b'']"
  by (simp add: split_text_def split_loop_step split_loop_done slice_def chunkSize_def)

lemma http_error_chunk_is_skipped_example:
  "\<exists>db' new d'.
      process_document
        (example_environment (Some ''sk-test'') (replicate 1000 (CHR ''a'') @ ''b'')
           (\<lambda>call. if call = 0 then EmbeddingNotOk 500 else EmbeddingOk [1]))
        example_database example_request
      = (Response 200 (IngestSuccess 1), db')
    \<and> document_chunks db' = new
    \<and> map content new = [''b'']
    \<and> load_document db' ''doc-1'' = Inr d'
    \<and> status d' = Some ''completed''
    \<and> processing_progress d' = Some 100"
proof -
  let ?file = "replicate 1000 (CHR ''a'') @ ''b''"
  let ?env = "example_environment (Some ''sk-test'') ?file
                (\<lambda>call. if call = 0 then EmbeddingNotOk 500 else EmbeddingOk [1])"
  let ?chunks = "[replicate 1000 (CHR ''a''), ''b'']"
  have "\<exists>db' new d'.
           process_document ?env example_database example_request
             = (Response 200 (IngestSuccess (2 - 1)), db')
         \<and> document_chunks db' = document_chunks example_database @ new
         \<and> length new = 2 - 1
         \<and> map content new = take 0 ?chunks @ drop (Suc 0) ?chunks
         \<and> (\<forall>c \<in> set new. document_id c = ''doc-1'')
         \<and> load_document db' ''doc-1'' = Inr d'
         \<and> status d' = Some ''completed''
         \<and> processing_progress d' = Some 100"
  proof (rule http_error_chunk_is_skipped
      [where d = example_document and t = ?file and k = "''sk-test''"
         and fileData = "\<lparr>blob_text = ?file, blob_arrayBuffer = []\<rparr>"])
    show "ingest_method example_request \<noteq> ''OPTIONS''"
      and "ingest_json example_request = Inr (Some ''doc-1'')"
      by (simp_all add: example_request_def)
    show "''doc-1'' \<noteq> []" by simp
    show "load_document example_database ''doc-1'' = Inr example_document"
      by (simp add: load_document_def example_database_def example_document_def)
    show "download_file ?env example_document = Inr \<lparr>blob_text = ?file, blob_arrayBuffer = []\<rparr>"
      by (simp add: download_file_def example_environment_def)
    show "extract_text ?env example_document \<lparr>blob_text = ?file, blob_arrayBuffer = []\<rparr> = Inr ?file"
      by (simp add: extract_text_def example_document_def)
    show "check_api_key (OPENAI_API_KEY ?env) = Inr ''sk-test''"
      by (simp add: check_api_key_def example_environment_def trim_def is_white_space_def)
    show "?chunks = split_text ?file" by (simp add: split_text_1001)
    show "2 = length ?chunks" and "(1::nat) < 2" and "(0::nat) < 2" by simp_all
    show "is_http_error (embeddings_api ?env 0 (?chunks ! 0))"
      by (simp add: example_environment_def)
    show "\<forall>i<2. i \<noteq> 0 \<longrightarrow> is_vector (embeddings_api ?env i (?chunks ! i))"
      by (simp add: example_environment_def)
  qed
  then obtain db' new d' where
    "process_document ?env example_database example_request
       = (Response 200 (IngestSuccess (2 - 1)), db')"
    "document_chunks db' = document_chunks example_database @ new"
    "map content new = take 0 ?chunks @ drop (Suc 0) ?chunks"
    "load_document db' ''doc-1'' = Inr d'"
    "status d' = Some ''completed''"
    "processing_progress d' = Some 100"
    by blast
  then show ?thesis
    by (intro exI [of _ db'] exI [of _ new] exI [of _ d']) (simp add: example_database_def)
qed


lemma check_api_key_missing:
  "key = None \<or> (\<exists>k. key = Some k \<and> trim k = []) \<Longrightarrow>
   check_api_key key = Inl (Error ''OPENAI_API_KEY is not configured or is empty'')"
  by (auto simp: check_api_key_def)

lemma try_without_credential:
  assumes "OPENAI_API_KEY env = None \<or> (\<exists>k. OPENAI_API_KEY env = Some k \<and> trim k = [])"
  shows "\<exists>e. process_document_try env db ident = (Inl e, db)"
  using check_api_key_missing [OF assms]
  by (auto simp: process_document_try_def Let_def split: sum.splits)

lemma catch_keeps_chunks_and_progress:
  "document_chunks (snd (process_document_catch db i e)) = document_chunks db
   \<and> map processing_progress (documents (snd (process_document_catch db i e)))
       = map processing_progress (documents db)"
  by (auto simp: process_document_catch_def documents_update_documents split: option.splits)

lemma without_credential_nothing_embedded:
  assumes "OPENAI_API_KEY env = None \<or> (\<exists>k. OPENAI_API_KEY env = Some k \<and> trim k = [])"
  shows "document_chunks (snd (process_document env db req)) = document_chunks db
         \<and> map processing_progress (documents (snd (process_document env db req)))
             = map processing_progress (documents db)"
proof (cases "ingest_method req \<noteq> ''OPTIONS'' \<and> (\<exists>ident. ingest_json req = Inr (Some ident) \<and> ident \<noteq> [])")
  case True
  then obtain ident where req: "ingest_method req \<noteq> ''OPTIONS''"
    "ingest_json req = Inr (Some ident)" "ident \<noteq> []"
    by blast
  from try_without_credential [OF assms, of db ident] obtain e
    where "process_document_try env db ident = (Inl e, db)" by blast
  then have "process_document env db req = process_document_catch db (Some ident) e"
    using req by (simp add: process_document_post)
  then show ?thesis by (simp only: catch_keeps_chunks_and_progress)
next
  case False
  then show ?thesis
    by (auto simp: process_document_def catch_keeps_chunks_and_progress
        split: sum.splits option.splits)
qed

text \<open>
  C10. When \<open>OPENAI_API_KEY\<close> is missing or empty (nothing but white space), a run inserts
  no chunk row and leaves every progress value as it was; and when the run gets as far as the
  credential check (the document is loaded, downloaded and its text extracted), it answers
  with the configuration error and the document is stored as failed with that message.
\<close>

theorem missing_credential_fails_before_embedding:
  assumes "OPENAI_API_KEY env = None \<or> (\<exists>k. OPENAI_API_KEY env = Some k \<and> trim k = [])"
  shows "document_chunks (snd (process_document env db req)) = document_chunks db
       \<and> map processing_progress (documents (snd (process_document env db req)))
           = map processing_progress (documents db)
       \<and> (ingest_method req \<noteq> ''OPTIONS'' \<and> ingest_json req = Inr (Some ident) \<and> ident \<noteq> []
            \<and> load_document db ident = Inr d
            \<and> download_file env d = Inr fileData
            \<and> extract_text env d fileData = Inr t
          \<longrightarrow> fst (process_document env db req)
                = Response 500 (ErrorBody ''OPENAI_API_KEY is not configured or is empty'')
              \<and> load_document (snd (process_document env db req)) ident
                = Inr (d\<lparr>status := Some ''failed'',
                         error_message := Some ''OPENAI_API_KEY is not configured or is empty''\<rparr>))"
proof (intro conjI impI)
  show "document_chunks (snd (process_document env db req)) = document_chunks db"
    and "map processing_progress (documents (snd (process_document env db req)))
           = map processing_progress (documents db)"
    using without_credential_nothing_embedded [OF assms] by blast+
next
  let ?msg = "''OPENAI_API_KEY is not configured or is empty''"
  let ?failed = "\<lambda>x. x\<lparr>status := Some ''failed'', error_message := Some ?msg\<rparr>"
  assume reach: "ingest_method req \<noteq> ''OPTIONS'' \<and> ingest_json req = Inr (Some ident) \<and> ident \<noteq> []
            \<and> load_document db ident = Inr d
            \<and> download_file env d = Inr fileData
            \<and> extract_text env d fileData = Inr t"
  then have "process_document_try env db ident = (Inl (Error ?msg), db)"
    using check_api_key_missing [OF assms]
    by (simp add: process_document_try_def Let_def)
  with reach have result: "process_document env db req
      = (Response 500 (ErrorBody ?msg), update_documents db ident ?failed)"
    by (simp add: process_document_post process_document_catch_def)
  show "fst (process_document env db req) = Response 500 (ErrorBody ?msg)"
    by (simp add: result)
  have "load_document (update_documents db ident ?failed) ident = Inr (?failed d)"
    using reach by (intro load_document_updated) simp_all
  then show "load_document (snd (process_document env db req)) ident = Inr (?failed d)"
    by (simp add: result)
qed

theorem missing_credential_fails_before_embedding_witness:
  "document_chunks (snd (process_document (example_environment None ''hello'' (\<lambda>call. EmbeddingOk [1]))
                           example_database example_request)) = []
   \<and> fst (process_document (example_environment None ''hello'' (\<lambda>call. EmbeddingOk [1]))
             example_database example_request)
       = Response 500 (ErrorBody ''OPENAI_API_KEY is not configured or is empty'')
   \<and> load_document (snd (process_document (example_environment None ''hello'' (\<lambda>call. EmbeddingOk [1]))
                           example_database example_request)) ''doc-1''
       = Inr (example_document\<lparr>status := Some ''failed'',
                error_message := Some ''OPENAI_API_KEY is not configured or is empty''\<rparr>)"
proof -
  let ?env = "example_environment None ''hello'' (\<lambda>call. EmbeddingOk [1])"
  let ?blob = "\<lparr>blob_text = ''hello'', blob_arrayBuffer = []\<rparr>"
  have key: "OPENAI_API_KEY ?env = None \<or> (\<exists>k. OPENAI_API_KEY ?env = Some k \<and> trim k = [])"
    by (simp add: example_environment_def)
  have reach: "ingest_method example_request \<noteq> ''OPTIONS''
      \<and> ingest_json example_request = Inr (Some ''doc-1'') \<and> ''doc-1'' \<noteq> []
      \<and> load_document example_database ''doc-1'' = Inr example_document
      \<and> download_file ?env example_document = Inr ?blob
      \<and> extract_text ?env example_document ?blob = Inr ''hello''"
    by (simp add: example_request_def load_document_def example_database_def
        example_document_def download_file_def example_environment_def extract_text_def)
  from missing_credential_fails_before_embedding
         [OF key, of example_database example_request "''doc-1''" example_document ?blob "''hello''"]
       reach
  show ?thesis by (simp add: example_database_def)
qed

text \<open>
  C3 (not met by the code). An empty plain-text file: the extracted text is empty, no chunk is
  produced, and with the credential configured the run answers success with zero processed
  chunks and stores the document as completed with progress 100. Only the DOCX and PDF
  branches of the extractor reject an empty text.
\<close>

theorem empty_text_file_is_marked_completed:
  "extract_text (example_environment (Some ''sk-test'') [] (\<lambda>call. EmbeddingOk [1]))
     example_document \<lparr>blob_text = [], blob_arrayBuffer = []\<rparr> = Inr []
   \<and> process_document (example_environment (Some ''sk-test'') [] (\<lambda>call. EmbeddingOk [1]))
       example_database example_request
     = (Response 200 (IngestSuccess 0),
        example_database
          \<lparr>documents := [example_document\<lparr>status := Some ''completed'',
                                         processing_progress := Some 100\<rparr>]\<rparr>)"
  by (simp add: process_document_def process_document_try_def example_request_def
      load_document_def example_database_def example_document_def download_file_def
      example_environment_def extract_text_def split_text_def split_loop_done
      check_api_key_def trim_def is_white_space_def update_documents_def)

lemma split_text_2001:
  "split_text (replicate 1000 (CHR ''a'') @ replicate 1000 (CHR ''b'') @ ''c'')
     = [replicate 1000 (CHR ''a''), replicate 1000 (CHR ''b''), ''c'']"
  by (simp add: split_text_def split_loop_step split_loop_done slice_def chunkSize_def)

text \<open>
  C4 (not met by the code). A text of 2001 characters has three chunks. When the second
  embedding request throws (the fetch rejects), the loop does not skip the chunk: the throw
  leaves the loop, the run answers with status 500, the document is stored as failed with
  the thrown message at progress 33, and only the first chunk is persisted, not the two
  chunks other than the failed one. Only an HTTP error answer takes the skip of the loop.
\<close>

theorem thrown_embedding_failure_aborts_document:
  "length (split_text (replicate 1000 (CHR ''a'') @ replicate 1000 (CHR ''b'') @ ''c'')) = 3
   \<and> process_document
        (example_environment (Some ''sk-test'')
           (replicate 1000 (CHR ''a'') @ replicate 1000 (CHR ''b'') @ ''c'')
           (\<lambda>call. if call = 1 then EmbeddingThrows (Error ''network down'') else EmbeddingOk [1]))
        example_database example_request
     = (Response 500 (ErrorBody ''network down''),
        example_database
          \<lparr>documents := [example_document\<lparr>status := Some ''failed'',
                                         processing_progress := Some 33,
                                         error_message := Some ''network down''\<rparr>],
            document_chunks :=
              [\<lparr>document_id = ''doc-1'', content = replicate 1000 (CHR ''a''),
                embedding = Some [1], chunk_index = Some 0\<rparr>]\<rparr>)"
  by (simp add: split_text_2001 process_document_def process_document_try_def
      process_document_catch_def example_request_def
      load_document_def example_database_def example_document_def download_file_def
      example_environment_def extract_text_def
      check_api_key_def trim_def is_white_space_def update_documents_def insert_chunk_def)

text \<open>
  C5 (not met by the code). A text of 2001 characters has three chunks, at positions 0, 1
  and 2. When the second embedding request is answered with an HTTP error, the third chunk
  is stored with \<open>chunk_index\<close> 1, the number of chunks stored before it, not its position 2.
\<close>

theorem chunk_index_after_skip_is_not_position:
  "split_text (replicate 1000 (CHR ''a'') @ replicate 1000 (CHR ''b'') @ ''c'') ! 2 = ''c''
   \<and> map (\<lambda>c. (content c, chunk_index c))
        (document_chunks (snd (process_document
           (example_environment (Some ''sk-test'')
              (replicate 1000 (CHR ''a'') @ replicate 1000 (CHR ''b'') @ ''c'')
              (\<lambda>call. if call = 1 then EmbeddingNotOk 500 else EmbeddingOk [1]))
           example_database example_request)))
     = [(replicate 1000 (CHR ''a''), Some 0), (''c'', Some 1)]"
  by (simp add: split_text_2001 process_document_def process_document_try_def example_request_def
      load_document_def example_database_def example_document_def download_file_def
      example_environment_def extract_text_def
      check_api_key_def trim_def is_white_space_def update_documents_def insert_chunk_def)


subsection \<open>Knowledge-source resolution\<close>

lemma resolve_agent_logs [simp]:
  "resolve_agent (db\<lparr>logs := l\<rparr>) conv r = resolve_agent db conv r"
  by (simp add: resolve_agent_def split: option.splits)

lemma resolve_context_logs [simp]:
  "resolve_context (db\<lparr>logs := l\<rparr>) conv r = resolve_context db conv r"
  by (simp add: resolve_context_def split: option.splits)

lemma resolve_conversation_logs [simp]:
  "resolve_conversation (db\<lparr>logs := l\<rparr>) cid rag = resolve_conversation db cid rag"
  by (simp add: resolve_conversation_def Let_def split: option.splits)

lemma resolve_user_documents_logs [simp]:
  "resolve_user_documents (db\<lparr>logs := l\<rparr>) user r = resolve_user_documents db user r"
  by (simp add: resolve_user_documents_def)

lemma resolve_knowledge_logs [simp]:
  "resolve_knowledge (db\<lparr>logs := l\<rparr>) user cid rag = resolve_knowledge db user cid rag"
  by (simp add: resolve_knowledge_def)

lemma conversation_history_logs [simp]:
  "conversation_history (db\<lparr>logs := l\<rparr>) cid = conversation_history db cid"
  by (simp add: conversation_history_def)

text \<open>
  In rag-chat a conversation bound to an agent with a non-empty knowledge base resolves to
  that knowledge base, the agent's flag and the agent's prompt, whatever context is bound.
\<close>

lemma rag_chat_agent_wins:
  assumes "truthy cid"
    and "single (filter (\<lambda>c. Some (conversation_id c) = cid) (conversations db)) = Some conv"
    and "truthy (conv_agent_id conv)"
    and "single (filter (\<lambda>a. Some (agent_id a) = conv_agent_id conv) (agents db)) = Some a"
    and "agent_document_ids a = Some ids" and "ids \<noteq> []"
  shows "resolve_knowledge db user cid rag
         = \<lparr>systemPrompt = agent_system_prompt a,
            ragEnabledForConversation = agent_rag_enabled a,
            documentIds = ids\<rparr>"
  using assms
  by (simp add: resolve_knowledge_def resolve_user_documents_def resolve_conversation_def
      resolve_agent_def resolve_context_def)

text \<open>
  C6 (not met by the code). For conversation \<open>conv-1\<close>, bound to an agent with knowledge base
  \<open>doc-a\<close> and to a context with document \<open>doc-x\<close>, the voice-session function resolves both
  documents, the context's appended to the agent's, and so fetches chunks of either; rag-chat
  resolves the agent's document alone, with the agent's flag.
\<close>

theorem voice_session_adds_context_documents:
  "gemini_document_ids example_chat_database ''user-1'' (Some ''conv-1'') = [''doc-a'', ''doc-x'']
   \<and> resolve_knowledge example_chat_database ''user-1'' (Some ''conv-1'') (Some True)
       = \<lparr>systemPrompt = ''You are the agent.'', ragEnabledForConversation = False,
          documentIds = [''doc-a'']\<rparr>"
  by (simp add: gemini_document_ids_def gemini_agent_documents_def gemini_context_documents_def
      example_chat_database_def resolve_knowledge_def resolve_user_documents_def
      resolve_conversation_def resolve_agent_def resolve_context_def)

subsection \<open>Retrieval and the answer\<close>

lemma match_no_chunks:
  assumes "\<forall>c \<in> set table. \<forall>e. embedding c = Some e \<and> document_id c \<in> set ids
             \<longrightarrow> \<not> 1 - distance e q > threshold"
    and "0 \<le> k"
  shows "match_document_chunks distance table q threshold k ids = Inr []"
proof -
  have "filter (\<lambda>(c, d). document_id c \<in> set ids \<and> 1 - d > threshold)
          (concat (map (with_distance distance q) table)) = []"
    using assms(1) by (auto simp: filter_empty_conv split: option.splits)
  then show ?thesis
    using assms(2) by (simp add: match_document_chunks_def)
qed

text \<open>
  C8. A query with RAG enabled and a non-empty resolved document set, whose embedding no
  stored chunk of those documents matches above the threshold 0.3, is answered with status
  200 and exactly the fixed not-found sentence; the only request sent to a model service is
  the embedding of the query, none to the generative model.
\<close>

theorem no_matching_chunk_short_circuits:
  assumes "chat_method req \<noteq> ''OPTIONS''" and "chat_json req = Inr body"
    and "message body = Some msg" and "msg \<noteq> []"
    and "chat_authorization req = Some authHeader"
    and "auth_getUser env (replace authHeader ''Bearer '' []) = Some user"
    and "r = resolve_knowledge db user (body_conversation_id body) (body_rag_enabled body)"
    and "ragEnabledForConversation r" and "documentIds r \<noteq> []"
    and "truthy (OPENAI_API_KEY env)" and "embeddings_api env 0 msg = EmbeddingOk v"
    and "\<forall>c \<in> set (document_chunks db). \<forall>e.
           embedding c = Some e \<and> document_id c \<in> set (documentIds r)
           \<longrightarrow> \<not> 1 - cosine_distance env e v > 3 / 10"
  shows "fst (rag_chat env db req)
           = Response 200 (ChatBody ''Die angefragte Information ist in den bereitgestellten Dokumenten nicht enthalten.'' True)
       \<and> fst (snd (rag_chat env db req)) = [EmbeddingsCall msg]
       \<and> filter is_chat_call (fst (snd (rag_chat env db req))) = []"
proof -
  let ?db1 = "db\<lparr>logs := logs db @ [''WebSocket connection attempt222'']\<rparr>"
  have "match_document_chunks (cosine_distance env) (document_chunks ?db1) v (3 / 10) 5 (documentIds r)
        = Inr []"
    using assms(12) by (intro match_no_chunks) simp_all
  then have search: "vector_search env ?db1 msg r = (Inr no_retrieval, [EmbeddingsCall msg])"
    using assms(8-11) by (simp add: vector_search_def)
  have "build_system_prompt r no_retrieval = NotFoundShortCircuit"
    using assms(8,9) by (simp add: build_system_prompt_def no_retrieval_def)
  then have answer: "generate_answer env r no_retrieval hist msg [EmbeddingsCall msg]
        = (Inr (Response 200 (ChatBody not_found_answer True)), [EmbeddingsCall msg])" for hist
    by (simp add: generate_answer_def)
  have "rag_chat_try env db req
        = (Inr (Response 200 (ChatBody not_found_answer True)), [EmbeddingsCall msg], ?db1)"
    using assms(2-7) search answer by (simp add: rag_chat_try_def Let_def)
  then have "rag_chat env db req
        = (Response 200 (ChatBody not_found_answer True), [EmbeddingsCall msg], ?db1)"
    using assms(1) by (simp add: rag_chat_def)
  then show ?thesis by (simp add: not_found_answer_def)
qed


theorem no_matching_chunk_short_circuits_witness:
  "fst (rag_chat ((example_environment (Some ''sk-test'') [] (\<lambda>call. EmbeddingOk [1]))
                    \<lparr>cosine_distance := \<lambda>a b. 1\<rparr>)
          example_chat_database (example_chat_request None))
     = Response 200 (ChatBody ''Die angefragte Information ist in den bereitgestellten Dokumenten nicht enthalten.'' True)
   \<and> fst (snd (rag_chat ((example_environment (Some ''sk-test'') [] (\<lambda>call. EmbeddingOk [1]))
                            \<lparr>cosine_distance := \<lambda>a b. 1\<rparr>)
                  example_chat_database (example_chat_request None)))
     = [EmbeddingsCall ''question'']"
proof -
  let ?env = "(example_environment (Some ''sk-test'') [] (\<lambda>call. EmbeddingOk [1]))
                \<lparr>cosine_distance := \<lambda>a b. 1\<rparr>"
  let ?body = "\<lparr>message = Some ''question'', body_conversation_id = None, body_rag_enabled = None\<rparr>"
  let ?r = "\<lparr>systemPrompt = ''You are a helpful AI assistant.'', ragEnabledForConversation = True,
             documentIds = [''doc-1'']\<rparr>"
  have resolved: "?r = resolve_knowledge example_chat_database ''user-1''
                         (body_conversation_id ?body) (body_rag_enabled ?body)"
    by (simp add: resolve_knowledge_def resolve_user_documents_def resolve_conversation_def
        example_chat_database_def example_document_def)
  have "fst (rag_chat ?env example_chat_database (example_chat_request None))
           = Response 200 (ChatBody ''Die angefragte Information ist in den bereitgestellten Dokumenten nicht enthalten.'' True)
       \<and> fst (snd (rag_chat ?env example_chat_database (example_chat_request None)))
           = [EmbeddingsCall ''question'']
       \<and> filter is_chat_call (fst (snd (rag_chat ?env example_chat_database (example_chat_request None)))) = []"
  proof (rule no_matching_chunk_short_circuits
      [where body = ?body and authHeader = "''Bearer token-1''" and user = "''user-1''"
         and r = ?r and v = "[1]"])
    show "chat_method (example_chat_request None) \<noteq> ''OPTIONS''"
      and "chat_json (example_chat_request None) = Inr ?body"
      and "chat_authorization (example_chat_request None) = Some ''Bearer token-1''"
      by (simp_all add: example_chat_request_def)
    show "message ?body = Some ''question''" and "''question'' \<noteq> []" by simp_all
    show "auth_getUser ?env (replace ''Bearer token-1'' ''Bearer '' []) = Some ''user-1''"
      by (simp add: example_environment_def)
    show "?r = resolve_knowledge example_chat_database ''user-1''
                 (body_conversation_id ?body) (body_rag_enabled ?body)"
      by (rule resolved)
    show "ragEnabledForConversation ?r" and "documentIds ?r \<noteq> []" by simp_all
    show "truthy (OPENAI_API_KEY ?env)" and "embeddings_api ?env 0 ''question'' = EmbeddingOk [1]"
      by (simp_all add: example_environment_def)
    show "\<forall>c \<in> set (document_chunks example_chat_database). \<forall>e.
            embedding c = Some e \<and> document_id c \<in> set (documentIds ?r)
            \<longrightarrow> \<not> 1 - cosine_distance ?env e [1] > 3 / 10"
      by (simp add: example_chat_database_def example_environment_def)
  qed
  then show ?thesis by simp
qed

text \<open>
  The search function treats a failed query embedding as fatal: a missing credential, an HTTP
  error or a throw of the embedding request ends in a response with status 500.
\<close>

lemma chat_search_embedding_failure_is_error:
  assumes "search_method req \<noteq> ''OPTIONS''" and "search_json req = Inr body"
    and "search_user_id body = Some user" and "user \<noteq> []"
    and "search_query body = Some q" and "q \<noteq> []"
    and "filter (\<lambda>d. doc_user_id d = user \<and> status d = Some ''completed'') (documents db) \<noteq> []"
    and "\<not> truthy (OPENAI_API_KEY env) \<or> \<not> is_vector (embeddings_api env 0 q)"
  shows "\<exists>m. fst (chat_search env db req) = Response 500 (SearchError m)"
  using assms
  by (cases "embeddings_api env 0 q")
     (auto simp: chat_search_def chat_search_try_def Let_def)

text \<open>
  C7 (not met by the code). In rag-chat, with RAG enabled and the user's completed document
  as knowledge base, a query whose embedding request is answered with HTTP 500, or that runs
  without the embedding credential, is answered with status 200 and the fixed not-found
  sentence, \<open>rag_used\<close> true: the failure is not surfaced.
\<close>

theorem rag_chat_hides_embedding_failure:
  "fst (rag_chat (example_environment (Some ''sk-test'') [] (\<lambda>call. EmbeddingNotOk 500))
          example_chat_database (example_chat_request None))
     = Response 200 (ChatBody ''Die angefragte Information ist in den bereitgestellten Dokumenten nicht enthalten.'' True)
   \<and> fst (rag_chat (example_environment None [] (\<lambda>call. EmbeddingOk [1]))
            example_chat_database (example_chat_request None))
     = Response 200 (ChatBody ''Die angefragte Information ist in den bereitgestellten Dokumenten nicht enthalten.'' True)"
  by (simp add: rag_chat_def rag_chat_try_def example_chat_request_def example_environment_def
      resolve_knowledge_def resolve_user_documents_def resolve_conversation_def
      example_chat_database_def example_document_def vector_search_def generate_answer_def
      build_system_prompt_def no_retrieval_def not_found_answer_def)

text \<open>
  C9 (not met by the code). Conversation \<open>conv-2\<close> holds eleven messages, written at times 0
  to 10. The prompt sent to the generative model is the system layer, then the messages of
  times 0 to 9 in chronological order, then the new user message: the ten oldest messages,
  without the latest one.
\<close>

theorem history_is_first_ten_messages:
  "fst (snd (rag_chat (example_environment (Some ''sk-test'') [] (\<lambda>call. EmbeddingOk [1]))
               example_chat_database (example_chat_request (Some ''conv-2''))))
     = [ChatCompletionsCall
          ([(''system'', ''You are a helpful AI assistant.\<newline>\<newline>RAG is disabled. Answer based on your general knowledge.'')]
           @ [(''user'', ''message 0''), (''assistant'', ''message 1''), (''user'', ''message 2''),
              (''assistant'', ''message 3''), (''user'', ''message 4''), (''assistant'', ''message 5''),
              (''user'', ''message 6''), (''assistant'', ''message 7''), (''user'', ''message 8''),
              (''assistant'', ''message 9'')]
           @ [(''user'', ''question'')])]
   \<and> (''user'', ''message 10'')
       \<in> set (map (\<lambda>m. (role m, msg_content m)) (messages example_chat_database))"
  by (simp add: rag_chat_def rag_chat_try_def example_chat_request_def example_environment_def
      resolve_knowledge_def resolve_user_documents_def resolve_conversation_def
      resolve_agent_def resolve_context_def conversation_history_def
      example_chat_database_def example_document_def example_message_def string_of_nat.simps
      vector_search_def generate_answer_def build_system_prompt_def no_retrieval_def)

end
